theory Spec2Isabelle
  imports Main "HOL-Library.Word" "HOL-Library.Char_ord" "HOL-Library.List_Lexorder"
begin

section \<open>The notification queue (components/ui/toast.tsx, useToast)\<close>

text \<open>
  A toast is the element type of the \<open>toasts\<close> state array: an \<open>id\<close> string, a
  \<open>type\<close> out of four literals, and the optional \<open>title\<close> and \<open>description\<close>.
  The argument of \<open>addToast\<close> is the same object without its \<open>id\<close>.
\<close>

datatype toast_type = Success | Error | Warning | Info

record toast_input =
  toast_kind :: toast_type
  title :: "string option"
  description :: "string option"

record toast = toast_input +
  toast_id :: string

text \<open>
  The hook owns the \<open>toasts\<close> array. Each \<open>addToast\<close> also hands a callback to
  \<open>setTimeout\<close>; the pending callbacks are kept here as pairs of the time at which
  they are due and the \<open>id\<close> their closure captured.
\<close>

record toast_state =
  toasts :: "toast list"
  timers :: "(int \<times> string) list"

definition useToast_init :: toast_state where
  "useToast_init = \<lparr>toasts = [], timers = []\<rparr>"

subsection \<open>\<open>Date.now().toString()\<close>\<close>

text \<open>
  \<open>Date.now()\<close> is an integer number of milliseconds; \<open>toString\<close> prints it in
  decimal, with a leading minus sign below zero. (The exponent notation of JavaScript
  starts at 1e21, beyond every value a Date can hold.)
\<close>

definition digit_char :: "nat \<Rightarrow> char" where
  "digit_char d = ''0123456789'' ! d"

function digits :: "nat \<Rightarrow> string" where
  "digits n = (if n < 10 then [digit_char n] else digits (n div 10) @ [digit_char (n mod 10)])"
  by pat_completeness auto
termination
  by (relation "measure (\<lambda>n. n)") auto

declare digits.simps [simp del]

definition toString :: "int \<Rightarrow> string" where
  "toString i = (if i < 0 then CHR ''-'' # digits (nat (- i)) else digits (nat i))"

subsection \<open>The operations\<close>

definition ttl :: int where
  "ttl = 5000"

text \<open>
  \<open>addToast\<close>: \<open>now\<close> is what \<open>Date.now()\<close> returns during the call. The new entry is
  appended, and the removal of its id is scheduled \<open>ttl\<close> milliseconds later.
\<close>

definition addToast :: "int \<Rightarrow> toast_input \<Rightarrow> toast_state \<Rightarrow> toast_state" where
  "addToast now t s =
     (let i = toString now in
      s\<lparr>toasts := toasts s @ [\<lparr>toast_kind = toast_kind t, title = title t,
                                  description = description t, toast_id = i\<rparr>],
        timers := timers s @ [(now + ttl, i)]\<rparr>)"

text \<open>
  The scheduled callback, with the captured id: \<open>setToasts((prev) => prev.filter((t) =>
  t.id !== id))\<close>.
\<close>

definition expire :: "string \<Rightarrow> toast_state \<Rightarrow> toast_state" where
  "expire i s = s\<lparr>toasts := filter (\<lambda>t. toast_id t \<noteq> i) (toasts s)\<rparr>"

text \<open>\<open>removeToast\<close>: the same filter, applied on request. No timer is cancelled.\<close>

definition removeToast :: "string \<Rightarrow> toast_state \<Rightarrow> toast_state" where
  "removeToast i s = s\<lparr>toasts := filter (\<lambda>t. toast_id t \<noteq> i) (toasts s)\<rparr>"

text \<open>
  The event loop reaching time \<open>now\<close>: every pending callback that is due runs, in the
  order in which it was scheduled, and leaves the list of pending callbacks.
\<close>

definition fire_due :: "int \<Rightarrow> toast_state \<Rightarrow> toast_state" where
  "fire_due now s =
     (fold (\<lambda>(d, i). expire i) (filter (\<lambda>(d, i). d \<le> now) (timers s)) s)
       \<lparr>timers := filter (\<lambda>(d, i). \<not> d \<le> now) (timers s)\<rparr>"

datatype toast_event =
    AddToast int toast_input
  | RemoveToast string
  | TimersFire int

fun toast_step :: "toast_event \<Rightarrow> toast_state \<Rightarrow> toast_state" where
  "toast_step (AddToast now t) s = addToast now t s"
| "toast_step (RemoveToast i) s = removeToast i s"
| "toast_step (TimersFire now) s = fire_due now s"

definition run_toasts :: "toast_event list \<Rightarrow> toast_state \<Rightarrow> toast_state" where
  "run_toasts evs s = fold toast_step evs s"


section \<open>The chat-room page (the \<open>ChatRoom\<close> component)\<close>

subsection \<open>Data\<close>

record message_user =
  user_id :: string
  username :: string

record Message =
  msg_id :: string
  content :: string
  createdAt :: string
  user :: message_user

record RoomInfo =
  room_id :: string
  room_name :: string
  memberCount :: int

text \<open>
  The text of the input field is typed by the user, so it is kept as the UTF-16 code
  units of a JavaScript string; \<open>trim\<close> removes the WhiteSpace and LineTerminator
  code points of ECMAScript from both ends.
\<close>

type_synonym utf16 = "16 word list"

definition js_whitespace :: "16 word \<Rightarrow> bool" where
  "js_whitespace c \<longleftrightarrow>
     c = 0x9 \<or> c = 0xA \<or> c = 0xB \<or> c = 0xC \<or> c = 0xD \<or> c = 0x20 \<or> c = 0xA0 \<or>
     c = 0x1680 \<or> (0x2000 \<le> c \<and> c \<le> 0x200A) \<or> c = 0x2028 \<or> c = 0x2029 \<or>
     c = 0x202F \<or> c = 0x205F \<or> c = 0x3000 \<or> c = 0xFEFF"

definition trim :: "utf16 \<Rightarrow> utf16" where
  "trim cs = rev (dropWhile js_whitespace (rev (dropWhile js_whitespace cs)))"

text \<open>
  What a \<open>catch\<close> clause receives: an \<open>Error\<close> with its message, or any other value.
  The handlers all compute \<open>err instanceof Error ? err.message : fallback\<close>.
\<close>

datatype thrown = ErrorObj string | NotAnError

definition error_message :: "thrown \<Rightarrow> string \<Rightarrow> string" where
  "error_message err fallback = (case err of ErrorObj m \<Rightarrow> m | NotAnError \<Rightarrow> fallback)"

text \<open>
  The outcome of \<open>await fetch(...)\<close>: the promise rejects, or it resolves to a response
  with a status; \<open>await res.json()\<close> then throws or yields the parsed body.
\<close>

datatype 'a body = JsonThrows thrown | Json 'a

record 'a response =
  status :: nat
  json :: "'a body"

datatype 'a fetched = Rejected thrown | Resolved "'a response"

definition ok :: "'a response \<Rightarrow> bool" where
  "ok res \<longleftrightarrow> 200 \<le> status res \<and> status res \<le> 299"

text \<open>
  The parsed body of the history request: an array, or a value that is no array
  (\<open>Array.isArray\<close> is the only test the code makes). The elements of the array are
  not inspected, so their type \<open>'m\<close> is left open; a well-formed server sends
  \<open>Message\<close> objects.
\<close>

datatype 'm messages_json = JArray "'m list" | JOther

record request =
  url :: string
  authorization :: string

text \<open>
  The state of one mounted \<open>ChatRoom\<close>: the route parameter (\<open>None\<close> for
  \<open>undefined\<close>), the \<open>useState\<close> cells, the toast queue of \<open>useToast\<close>, and the two
  ambient objects the component writes to, \<open>localStorage\<close> and the router. The cells
  \<open>messages\<close> and \<open>roomInfo\<close> hold whatever the responses carried: \<open>'m\<close> is the type
  of an element of \<open>messages\<close>, \<open>'r\<close> that of a room body other than \<open>null\<close>
  (declared as \<open>Message\<close> and \<open>RoomInfo\<close>).
\<close>

record ('m, 'r) chat_room =
  roomId :: "string option"
  message :: utf16
  messages :: "'m list"
  roomInfo :: "'r option"
  isLoading :: bool
  isLoadingMessages :: bool
  error :: string
  isSendingMessage :: bool
  copiedRoomId :: bool
  toastq :: toast_state
  localStorage :: "string \<rightharpoonup> string"
  pushed :: "string list"

text \<open>JavaScript truthiness of an optional string: \<open>undefined\<close>, \<open>null\<close> and \<open>""\<close> are falsy.\<close>

definition truthy :: "string option \<Rightarrow> bool" where
  "truthy v = (case v of None \<Rightarrow> False | Some x \<Rightarrow> x \<noteq> [])"

subsection \<open>The two fetches\<close>

text \<open>
  Each fetch is split at its \<open>await\<close>: the request is built from the state in which the
  callback was created, and the rest of the body runs when the response arrives, on
  the state the component has by then. The setters are those of the instance.
\<close>

definition template_string :: "string option \<Rightarrow> string" where
  "template_string v = (case v of None \<Rightarrow> ''undefined'' | Some x \<Rightarrow> x)"

definition bearer :: "('m, 'r) chat_room \<Rightarrow> string" where
  "bearer s = ''Bearer '' @ (case localStorage s ''token'' of None \<Rightarrow> ''null'' | Some t \<Rightarrow> t)"

definition fetchRoomInfo_request :: "string \<Rightarrow> ('m, 'r) chat_room \<Rightarrow> request" where
  "fetchRoomInfo_request apiUrl s =
     \<lparr>url = apiUrl @ ''/chat/room/'' @ template_string (roomId s), authorization = bearer s\<rparr>"

definition fetchMessages_request :: "string \<Rightarrow> ('m, 'r) chat_room \<Rightarrow> request" where
  "fetchMessages_request apiUrl s =
     \<lparr>url = apiUrl @ ''/chat/room/'' @ template_string (roomId s) @ ''/messages'',
      authorization = bearer s\<rparr>"

definition fetchRoomInfo ::
  "request \<Rightarrow> 'r option fetched \<Rightarrow> ('m, 'r) chat_room \<Rightarrow> ('m, 'r) chat_room" where
  "fetchRoomInfo req r s =
     (case r of
        Rejected err \<Rightarrow> s\<lparr>error := error_message err ''Failed to load room information''\<rparr>
      | Resolved res \<Rightarrow>
          if status res = 401 then
            s\<lparr>localStorage := (localStorage s)(''token'' := None),
              pushed := pushed s @ [''/auth/login'']\<rparr>
          else if status res = 404 then s\<lparr>error := ''Room not found''\<rparr>
          else if status res = 403 then s\<lparr>error := ''You don't have access to this room''\<rparr>
          else if \<not> ok res then
            s\<lparr>error := error_message (ErrorObj ''Failed to fetch room information'')
                          ''Failed to load room information''\<rparr>
          else
            (case json res of
               JsonThrows err \<Rightarrow> s\<lparr>error := error_message err ''Failed to load room information''\<rparr>
             | Json data \<Rightarrow> s\<lparr>roomInfo := data\<rparr>))"

text \<open>
  \<open>fetchMessages\<close> has the same shape, and a \<open>finally\<close> clause that clears
  \<open>isLoadingMessages\<close> on every path.
\<close>

definition fetchMessages ::
  "request \<Rightarrow> 'm messages_json fetched \<Rightarrow> ('m, 'r) chat_room \<Rightarrow> ('m, 'r) chat_room" where
  "fetchMessages req r s =
     (let s' =
        (case r of
           Rejected err \<Rightarrow> s\<lparr>error := error_message err ''Failed to load messages''\<rparr>
         | Resolved res \<Rightarrow>
             if status res = 401 then
               s\<lparr>localStorage := (localStorage s)(''token'' := None),
                 pushed := pushed s @ [''/auth/login'']\<rparr>
             else if status res = 404 then s\<lparr>error := ''Room not found''\<rparr>
             else if status res = 403 then s\<lparr>error := ''You don't have access to this room''\<rparr>
             else if \<not> ok res then
               s\<lparr>error := error_message (ErrorObj ''Failed to fetch messages'')
                             ''Failed to load messages''\<rparr>
             else
               (case json res of
                  JsonThrows err \<Rightarrow> s\<lparr>error := error_message err ''Failed to load messages''\<rparr>
                | Json data \<Rightarrow>
                    s\<lparr>messages := (case data of JArray ms \<Rightarrow> ms | JOther \<Rightarrow> [])\<rparr>))
      in s'\<lparr>isLoadingMessages := False\<rparr>)"

text \<open>
  \<open>loadRoomData\<close>: \<open>await Promise.all([fetchRoomInfo(), fetchMessages()])\<close>, then
  \<open>setIsLoading(false)\<close>. Both fetches catch whatever is thrown, so the \<open>await\<close>
  always returns; the two responses are handled in the order in which they arrive.
  The effect that runs on mount and \<open>handleRetry\<close> both start it.
\<close>

datatype arrival = RoomInfoFirst | MessagesFirst

definition loadRoomData ::
  "arrival \<Rightarrow> request \<Rightarrow> 'r option fetched \<Rightarrow> request \<Rightarrow> 'm messages_json fetched \<Rightarrow>
   ('m, 'r) chat_room \<Rightarrow> ('m, 'r) chat_room" where
  "loadRoomData order req1 r1 req2 r2 s =
     (let s' =
        (case order of
           RoomInfoFirst \<Rightarrow> fetchMessages req2 r2 (fetchRoomInfo req1 r1 s)
         | MessagesFirst \<Rightarrow> fetchRoomInfo req1 r1 (fetchMessages req2 r2 s))
      in s'\<lparr>isLoading := False\<rparr>)"


subsection \<open>Sending\<close>

text \<open>
  \<open>socketSendMessage\<close> comes from the \<open>useSocket\<close> hook: it returns, or it throws
  (\<open>Some\<close> of what it threw). The second component of the result lists the arguments
  of the calls made to it.
\<close>

definition handleSend ::
  "(utf16 \<Rightarrow> thrown option) \<Rightarrow> ('m, 'r) chat_room \<Rightarrow> ('m, 'r) chat_room \<times> utf16 list" where
  "handleSend socketSendMessage s =
     (if trim (message s) = [] \<or> \<not> truthy (roomId s) \<or> isSendingMessage s then (s, [])
      else
        let s1 = s\<lparr>isSendingMessage := True\<rparr>;
            s2 = (case socketSendMessage (message s1) of
                    None \<Rightarrow> s1\<lparr>message := []\<rparr>
                  | Some err \<Rightarrow> s1\<lparr>error := error_message err ''Failed to send message''\<rparr>)
        in (s2\<lparr>isSendingMessage := False\<rparr>, [message s1]))"

subsection \<open>Rendering\<close>

text \<open>The list the message panel maps over: \<open>[...messages, ...socketMessages]\<close>.\<close>

definition merged_view :: "'m list \<Rightarrow> 'm list \<Rightarrow> 'm list" where
  "merged_view history socketMessages = history @ socketMessages"

datatype 'm panel = LoadingMessages | NoMessagesYet | MessageList "'m list"

text \<open>
  What the component returns. \<open>ErrorPage title description retry\<close>: the last field
  says whether the "Try Again" button is there (\<open>showRetry && onRetry\<close>).
\<close>

datatype 'm view =
    ErrorPage string string bool
  | LoadingPage
  | ChatView "toast list" "'m panel"

definition render :: "'m list \<Rightarrow> ('m, 'r) chat_room \<Rightarrow> 'm view" where
  "render socketMessages s =
     (if \<not> truthy (roomId s) then
        ErrorPage ''Invalid Room'' ''The room ID provided is not valid'' False
      else if isLoading s then LoadingPage
      else if error s \<noteq> [] then ErrorPage ''Failed to load chat room'' (error s) True
      else
        ChatView (toasts (toastq s))
          (if isLoadingMessages s then LoadingMessages
           else if length (merged_view (messages s) socketMessages) = 0 then NoMessagesYet
           else MessageList (merged_view (messages s) socketMessages)))"

subsection \<open>The order the specification asks of the view\<close>

text \<open>
  Non-decreasing \<open>createdAt\<close>, ties broken by the lexical order of \<open>id\<close>. Both fields
  are strings in the code; they are compared as strings (for ISO 8601 timestamps of one
  shape this is the order in time).
\<close>

definition spec_display_le :: "Message \<Rightarrow> Message \<Rightarrow> bool" where
  "spec_display_le a b \<longleftrightarrow>
     createdAt a < createdAt b \<or> (createdAt a = createdAt b \<and> msg_id a \<le> msg_id b)"


subsection \<open>A freshly mounted instance, and sample data\<close>

text \<open>The initial values of the \<open>useState\<close> cells, for a route parameter and a storage.\<close>

definition ChatRoom_init :: "string option \<Rightarrow> (string \<rightharpoonup> string) \<Rightarrow> ('m, 'r) chat_room" where
  "ChatRoom_init r store =
     \<lparr>roomId = r, message = [], messages = [], roomInfo = None, isLoading = True,
      isLoadingMessages = True, error = [], isSendingMessage = False, copiedRoomId = False,
      toastq = useToast_init, localStorage = store, pushed = []\<rparr>"

definition sample_message :: "string \<Rightarrow> string \<Rightarrow> Message" where
  "sample_message i t =
     \<lparr>msg_id = i, content = ''hello'', createdAt = t,
      user = \<lparr>user_id = ''u1'', username = ''ann''\<rparr>\<rparr>"

text \<open>The address used when \<open>NEXT_PUBLIC_API_URL\<close> is not set.\<close>

definition default_apiUrl :: string where
  "default_apiUrl = ''http://localhost:3000''"

definition sample_room :: "(Message, RoomInfo) chat_room" where
  "sample_room = (ChatRoom_init (Some ''A'') [''token'' \<mapsto> ''t''])\<lparr>isLoading := False\<rparr>"

text \<open>The instance as it is mounted for room A, and four outcomes of its fetches.\<close>

definition sample_mounted :: "(Message, RoomInfo) chat_room" where
  "sample_mounted = ChatRoom_init (Some ''A'') [''token'' \<mapsto> ''t'']"

definition room_not_found :: "RoomInfo option response" where
  "room_not_found = \<lparr>status = 404, json = JsonThrows NotAnError\<rparr>"



definition history_loaded :: "Message messages_json fetched" where
  "history_loaded =
     Resolved \<lparr>status = 200,
       json = Json (JArray [sample_message ''1'' ''2024-05-01T10:00:00.000Z''])\<rparr>"


definition sample_toast :: "toast_type \<Rightarrow> toast_input" where
  "sample_toast k = \<lparr>toast_kind = k, title = Some ''Failed to copy'', description = None\<rparr>"

section \<open>Auxiliary notions for the proofs\<close>



text \<open>Reading a decimal numeral back, to show that \<open>toString\<close> is injective.\<close>

definition digit_val :: "char \<Rightarrow> nat" where
  "digit_val c = length (takeWhile (\<lambda>x. x \<noteq> c) ''0123456789'')"

definition decimal_value :: "string \<Rightarrow> nat" where
  "decimal_value cs = foldl (\<lambda>a c. 10 * a + digit_val c) 0 cs"

text \<open>
  The invariant of the queue: every entry was made by \<open>addToast\<close> at some time \<open>T\<close>, and
  the callback scheduled by that call (or by another call at the same time) is pending.
\<close>

definition timer_backed :: "toast_state \<Rightarrow> bool" where
  "timer_backed s \<longleftrightarrow>
     (\<forall>t \<in> set (toasts s). \<exists>T. toast_id t = toString T \<and> (T + ttl, toString T) \<in> set (timers s))"


section \<open>Properties of the notification queue\<close>

subsection \<open>\<open>toString\<close> is injective\<close>

lemma below_ten:
  "d < 10 \<Longrightarrow>
   d = 0 \<or> d = 1 \<or> d = 2 \<or> d = 3 \<or> d = 4 \<or> d = 5 \<or> d = 6 \<or> d = 7 \<or> d = 8 \<or> d = (9::nat)"
  by arith

lemma digit_val_digit_char: "d < 10 \<Longrightarrow> digit_val (digit_char d) = d"
  by (drule below_ten) (auto simp: digit_val_def digit_char_def)

lemma decimal_value_snoc: "decimal_value (cs @ [c]) = 10 * decimal_value cs + digit_val c"
  by (simp add: decimal_value_def)

lemma decimal_value_digits: "decimal_value (digits n) = n"
proof (induction n rule: digits.induct)
  case (1 n)
  show ?case
  proof (cases "n < 10")
    case True
    then show ?thesis
      by (subst digits.simps) (simp add: decimal_value_def digit_val_digit_char)
  next
    case False
    with 1 have "decimal_value (digits (n div 10)) = n div 10" by simp
    with False show ?thesis
      by (subst digits.simps) (simp add: decimal_value_snoc digit_val_digit_char)
  qed
qed

lemma digits_inject: "digits m = digits n \<Longrightarrow> m = n"
  by (metis decimal_value_digits)

lemma digit_char_neq_minus: "d < 10 \<Longrightarrow> digit_char d \<noteq> CHR ''-''"
  by (drule below_ten) (auto simp: digit_char_def)

lemma minus_notin_digits: "CHR ''-'' \<notin> set (digits n)"
proof (induction n rule: digits.induct)
  case (1 n)
  show ?case
  proof (cases "n < 10")
    case True
    then show ?thesis
      by (subst digits.simps) (simp add: digit_char_neq_minus [symmetric])
  next
    case False
    with 1 have "CHR ''-'' \<notin> set (digits (n div 10))" by simp
    moreover have "digit_char (n mod 10) \<noteq> CHR ''-''" by (rule digit_char_neq_minus) simp
    ultimately show ?thesis using False
      by (subst digits.simps) auto
  qed
qed

lemma toString_inject: "toString a = toString b \<Longrightarrow> a = b"
proof -
  assume eq: "toString a = toString b"
  have neg_pos: False if "toString x = toString y" "x < 0" "\<not> y < 0" for x y
  proof -
    from that have "CHR ''-'' # digits (nat (- x)) = digits (nat y)"
      by (simp add: toString_def)
    then have "CHR ''-'' \<in> set (digits (nat y))" by (metis list.set_intros(1))
    then show False by (simp add: minus_notin_digits)
  qed
  consider "a < 0" "b < 0" | "a < 0" "\<not> b < 0" | "\<not> a < 0" "b < 0" | "\<not> a < 0" "\<not> b < 0"
    by blast
  then show ?thesis
  proof cases
    case 1
    with eq have "digits (nat (- a)) = digits (nat (- b))" by (simp add: toString_def)
    then have "nat (- a) = nat (- b)" by (rule digits_inject)
    with 1 show ?thesis by simp
  next
    case 2
    with eq neg_pos show ?thesis by blast
  next
    case 3
    with eq neg_pos [of b a] show ?thesis by simp
  next
    case 4
    with eq have "digits (nat a) = digits (nat b)" by (simp add: toString_def)
    then have "nat a = nat b" by (rule digits_inject)
    with 4 show ?thesis by simp
  qed
qed

subsection \<open>Every entry has its callback pending\<close>

lemma timer_backed_init: "timer_backed useToast_init"
  by (simp add: timer_backed_def useToast_init_def)

lemma timer_backed_addToast: "timer_backed s \<Longrightarrow> timer_backed (addToast now t s)"
  unfolding timer_backed_def addToast_def Let_def by fastforce

lemma timer_backed_removeToast: "timer_backed s \<Longrightarrow> timer_backed (removeToast i s)"
  unfolding timer_backed_def removeToast_def by simp

lemma timers_fold_expire: "timers (fold (\<lambda>(d, i). expire i) ds s) = timers s"
  by (induction ds arbitrary: s) (auto simp: expire_def)

lemma set_toasts_fold_expire:
  "set (toasts (fold (\<lambda>(d, i). expire i) ds s)) = {t \<in> set (toasts s). toast_id t \<notin> snd ` set ds}"
  by (induction ds arbitrary: s) (auto simp: expire_def)

lemma timer_backed_fire_due: "timer_backed s \<Longrightarrow> timer_backed (fire_due now s)"
  unfolding timer_backed_def fire_due_def
  by (auto simp: set_toasts_fold_expire) force

lemma timer_backed_step: "timer_backed s \<Longrightarrow> timer_backed (toast_step e s)"
  by (cases e) (simp_all add: timer_backed_addToast timer_backed_removeToast timer_backed_fire_due)

lemma timer_backed_run: "timer_backed s \<Longrightarrow> timer_backed (run_toasts evs s)"
  unfolding run_toasts_def by (induction evs arbitrary: s) (simp_all add: timer_backed_step)

lemma fire_due_clears:
  assumes inv: "timer_backed s" and due: "T + ttl \<le> now"
  shows "toString T \<notin> toast_id ` set (toasts (fire_due now s))"
proof
  assume "toString T \<in> toast_id ` set (toasts (fire_due now s))"
  then obtain t where t: "t \<in> set (toasts s)" "toast_id t = toString T"
    and nd: "toast_id t \<notin> snd ` set (filter (\<lambda>(d, i). d \<le> now) (timers s))"
    by (auto simp: fire_due_def set_toasts_fold_expire)
  from inv t obtain T' where T': "toString T = toString T'" "(T' + ttl, toString T') \<in> set (timers s)"
    unfolding timer_backed_def by metis
  from T'(1) have "T' = T" by (rule toString_inject [symmetric])
  with T' due have "(T + ttl, toString T) \<in> set (filter (\<lambda>(d, i). d \<le> now) (timers s))" by simp
  then have "toString T \<in> snd ` set (filter (\<lambda>(d, i). d \<le> now) (timers s))" by force
  with nd t show False by simp
qed

subsection \<open>Some values of \<open>toString\<close>\<close>

lemma toString_5: "toString 5 = ''5''"
  by (simp add: toString_def digits.simps digit_char_def)

lemma toString_6: "toString 6 = ''6''"
  by (simp add: toString_def digits.simps digit_char_def)

lemma toString_1700000000000: "toString 1700000000000 = ''1700000000000''"
  by (simp add: toString_def digits.simps digit_char_def)

subsection \<open>Expiry\<close>

text \<open>
  Claim C4. A notification added at time \<open>T\<close> is gone once its scheduled removal has
  run: whatever happened before the \<open>addToast\<close> at \<open>T\<close> and between it and the
  moment the event loop runs the callbacks due at a time \<open>now\<close> of at least
  \<open>T + 5000\<close> (other additions, manual removals or none, earlier timer runs), the
  queue then holds no entry with the id that call assigned.
\<close>

theorem toast_expiry:
  "T + 5000 \<le> now \<Longrightarrow>
   toString T \<notin> toast_id ` set (toasts
      (run_toasts (before @ AddToast T t # between @ [TimersFire now]) useToast_init))"
proof -
  assume due: "T + 5000 \<le> now"
  let ?s = "run_toasts (before @ AddToast T t # between) useToast_init"
  have "timer_backed ?s" by (rule timer_backed_run [OF timer_backed_init])
  moreover from due have "T + ttl \<le> now" by (simp add: ttl_def)
  ultimately have "toString T \<notin> toast_id ` set (toasts (fire_due now ?s))"
    by (rule fire_due_clears)
  moreover have "run_toasts (before @ AddToast T t # between @ [TimersFire now]) useToast_init
      = fire_due now ?s"
    by (simp add: run_toasts_def)
  ultimately show ?thesis by simp
qed

text \<open>
  An instance: an entry added at 990, the entry of interest at 1000, the timers running
  at 5990, one more entry at 5995, and the timers running again at 6000.
\<close>

theorem toast_expiry_witness:
  "(1000 :: int) + 5000 \<le> 6000 \<and>
   toString 1000 \<notin> toast_id ` set (toasts
      (run_toasts ([AddToast 990 (sample_toast Info)] @ AddToast 1000 (sample_toast Error)
          # [TimersFire 5990, AddToast 5995 (sample_toast Success)] @ [TimersFire 6000])
        useToast_init))"
  using toast_expiry [of 1000 6000 "[AddToast 990 (sample_toast Info)]" "sample_toast Error"
      "[TimersFire 5990, AddToast 5995 (sample_toast Success)]"]
  by simp

subsection \<open>Removal\<close>

text \<open>
  Claim C5. Removal is idempotent: removing \<open>x\<close> twice is removing it once; removing
  an id that no entry carries leaves the queue as it is; and the manual removal and the
  scheduled removal of one id can run in either order, the second being without effect.
  Both are total functions on the queue, so neither raises.
\<close>

theorem removeToast_idempotent:
  "removeToast x (removeToast x q) = removeToast x q \<and>
   (x \<notin> toast_id ` set (toasts q) \<longrightarrow> removeToast x q = q) \<and>
   expire x (removeToast x q) = removeToast x q \<and>
   removeToast x (expire x q) = expire x q \<and>
   expire x (removeToast x q) = removeToast x (expire x q)"
proof -
  have absent: "filter (\<lambda>t. toast_id t \<noteq> x) (toasts q) = toasts q"
    if "x \<notin> toast_id ` set (toasts q)"
    using that by (intro filter_True) auto
  show ?thesis
    by (auto simp: removeToast_def expire_def absent)
qed

theorem removeToast_idempotent_witness:
  "''7'' \<notin> toast_id ` set (toasts (addToast 5 (sample_toast Info) useToast_init)) \<and>
   removeToast ''7'' (addToast 5 (sample_toast Info) useToast_init)
     = addToast 5 (sample_toast Info) useToast_init"
proof -
  have "''7'' \<notin> toast_id ` set (toasts (addToast 5 (sample_toast Info) useToast_init))"
    by (simp add: addToast_def useToast_init_def Let_def toString_5)
  with removeToast_idempotent [of "''7''" "addToast 5 (sample_toast Info) useToast_init"]
  show ?thesis by simp
qed

text \<open>
  Claim C10. Removing \<open>x\<close> touches only the entries whose id is \<open>x\<close>: the entries with
  another id form the same sequence before and after (each present, with all its
  fields, in the same order), every entry that remains was there and has another id,
  and the pending timers are not changed.
\<close>

theorem removeToast_frame:
  "filter (\<lambda>t. toast_id t \<noteq> x) (toasts (removeToast x q)) = filter (\<lambda>t. toast_id t \<noteq> x) (toasts q) \<and>
   (\<forall>t \<in> set (toasts q). toast_id t \<noteq> x \<longrightarrow> t \<in> set (toasts (removeToast x q))) \<and>
   (\<forall>t \<in> set (toasts (removeToast x q)). t \<in> set (toasts q) \<and> toast_id t \<noteq> x) \<and>
   timers (removeToast x q) = timers q"
  by (simp add: removeToast_def)

theorem removeToast_frame_witness:
  "\<lparr>toast_kind = Success, title = Some ''Failed to copy'', description = None, toast_id = ''5''\<rparr>
     \<in> set (toasts (addToast 6 (sample_toast Info) (addToast 5 (sample_toast Success) useToast_init))) \<and>
   toast_id \<lparr>toast_kind = Success, title = Some ''Failed to copy'', description = None,
     toast_id = ''5''\<rparr> \<noteq> ''6'' \<and>
   \<lparr>toast_kind = Success, title = Some ''Failed to copy'', description = None, toast_id = ''5''\<rparr>
     \<in> set (toasts (removeToast ''6''
          (addToast 6 (sample_toast Info) (addToast 5 (sample_toast Success) useToast_init))))"
proof -
  let ?q = "addToast 6 (sample_toast Info) (addToast 5 (sample_toast Success) useToast_init)"
  let ?t = "\<lparr>toast_kind = Success, title = Some ''Failed to copy'', description = None,
     toast_id = ''5''\<rparr>"
  have mem: "?t \<in> set (toasts ?q)"
    by (simp add: addToast_def useToast_init_def sample_toast_def Let_def toString_5)
  have other: "toast_id ?t \<noteq> ''6''" by simp
  have "\<forall>t \<in> set (toasts ?q). toast_id t \<noteq> ''6'' \<longrightarrow> t \<in> set (toasts (removeToast ''6'' ?q))"
    using removeToast_frame [of "''6''" ?q] by (rule conjunct1 [OF conjunct2])
  then have "toast_id ?t \<noteq> ''6'' \<longrightarrow> ?t \<in> set (toasts (removeToast ''6'' ?q))"
    using mem by (rule bspec)
  then have "?t \<in> set (toasts (removeToast ''6'' ?q))"
    using other by (rule mp)
  with mem other show ?thesis by (intro conjI)
qed

subsection \<open>The ids that \<open>addToast\<close> assigns\<close>

text \<open>
  Claim C6. Two calls of \<open>addToast\<close> for which \<open>Date.now()\<close> returns the same
  millisecond give their entries the same id: the queue then holds two entries with
  one id.
\<close>

theorem addToast_same_millisecond:
  "map toast_id (toasts (addToast 1700000000000 (sample_toast Error)
       (addToast 1700000000000 (sample_toast Success) useToast_init)))
     = [''1700000000000'', ''1700000000000'']"
  by (simp add: addToast_def useToast_init_def Let_def toString_1700000000000)

text \<open>At different times the ids differ, since the decimal numeral determines the number.\<close>

lemma addToast_ids_differ:
  assumes "T1 \<noteq> T2"
  shows "distinct (map toast_id (toasts (addToast T2 b (addToast T1 a useToast_init))))"
proof -
  from assms have "toString T1 \<noteq> toString T2"
    using toString_inject by blast
  then show ?thesis
    by (simp add: addToast_def useToast_init_def Let_def)
qed

section \<open>Properties of the chat-room page\<close>

subsection \<open>The list of messages on display\<close>

text \<open>
  Claim C1, as the code has it. The list on display is the history followed by the
  socket messages, and nothing is taken out of it: no two of its entries share an id
  exactly when neither list repeats an id and no id occurs in both.
\<close>

theorem merged_view_distinct_iff:
  "distinct (map msg_id (merged_view history socketMessages)) \<longleftrightarrow>
     distinct (map msg_id history) \<and> distinct (map msg_id socketMessages) \<and>
     set (map msg_id history) \<inter> set (map msg_id socketMessages) = {}"
  by (simp add: merged_view_def)

text \<open>Each id is shown as often as the two lists hold it.\<close>

lemma merged_view_count:
  "count_list (map msg_id (merged_view history socketMessages)) i =
     count_list (map msg_id history) i + count_list (map msg_id socketMessages) i"
  by (simp add: merged_view_def)

text \<open>
  Claim C1 as stated fails: the history holds message 1, the socket then delivers
  message 1 again (the echo) and message 2; the view shows message 1 twice.
\<close>

theorem merged_view_duplicate_id:
  "\<not> distinct (map msg_id (merged_view
        [sample_message ''1'' ''2024-05-01T10:00:00.000Z'']
        [sample_message ''1'' ''2024-05-01T10:00:00.000Z'',
         sample_message ''2'' ''2024-05-01T10:00:05.000Z'']))"
  by (simp add: merged_view_def sample_message_def)

text \<open>
  Claim C2, as the code has it. The list on display is not sorted by the component: it
  is in the order of the specification exactly when the history is, the socket
  messages are, and every message of the history comes before or with every socket
  message in that order.
\<close>

theorem merged_view_sorted_iff:
  "sorted_wrt spec_display_le (merged_view history socketMessages) \<longleftrightarrow>
     sorted_wrt spec_display_le history \<and> sorted_wrt spec_display_le socketMessages \<and>
     (\<forall>a \<in> set history. \<forall>b \<in> set socketMessages. spec_display_le a b)"
  by (simp add: merged_view_def sorted_wrt_append)

theorem merged_view_sorted_iff_witness:
  "spec_display_le (sample_message ''1'' ''2024-05-01T10:00:00.000Z'')
     (sample_message ''2'' ''2024-05-01T10:00:05.000Z'') \<and>
   sorted_wrt spec_display_le (merged_view
      [sample_message ''1'' ''2024-05-01T10:00:00.000Z'']
      [sample_message ''2'' ''2024-05-01T10:00:05.000Z''])"
proof -
  have le: "spec_display_le (sample_message ''1'' ''2024-05-01T10:00:00.000Z'')
     (sample_message ''2'' ''2024-05-01T10:00:05.000Z'')"
    by (simp add: sample_message_def spec_display_le_def)
  then have cross: "\<forall>a \<in> set [sample_message ''1'' ''2024-05-01T10:00:00.000Z''].
      \<forall>b \<in> set [sample_message ''2'' ''2024-05-01T10:00:05.000Z'']. spec_display_le a b"
    by simp
  have "sorted_wrt spec_display_le (merged_view
      [sample_message ''1'' ''2024-05-01T10:00:00.000Z'']
      [sample_message ''2'' ''2024-05-01T10:00:05.000Z''])"
    unfolding merged_view_sorted_iff using cross by simp
  with le show ?thesis by (intro conjI)
qed

text \<open>
  Claim C2 as stated fails: the socket delivered message 1 before the history resolved
  with messages 1 and 2; message 1 is shown again after the later message 2.
\<close>

theorem merged_view_unsorted:
  "\<not> sorted_wrt spec_display_le (merged_view
        [sample_message ''1'' ''2024-05-01T10:00:00.000Z'',
         sample_message ''2'' ''2024-05-01T10:00:05.000Z'']
        [sample_message ''1'' ''2024-05-01T10:00:00.000Z''])"
  by (simp add: merged_view_def sample_message_def spec_display_le_def)

subsection \<open>Sending\<close>

text \<open>
  Claim C7. When the text of the input field is empty after trimming, \<open>handleSend\<close>
  returns at once: \<open>socketSendMessage\<close> is not called and no cell of the state
  changes, the error cell included.
\<close>

theorem handleSend_blank_noop:
  "trim (message s) = [] \<Longrightarrow> handleSend socketSendMessage s = (s, [])"
  by (simp add: handleSend_def)

theorem handleSend_blank_noop_witness:
  "trim (message (sample_room\<lparr>message := [0x20, 0x9, 0xA0]\<rparr>)) = [] \<and>
   handleSend (\<lambda>m. None) (sample_room\<lparr>message := [0x20, 0x9, 0xA0]\<rparr>)
     = (sample_room\<lparr>message := [0x20, 0x9, 0xA0]\<rparr>, [])"
proof -
  have blank: "trim (message (sample_room\<lparr>message := [0x20, 0x9, 0xA0]\<rparr>)) = []"
    by (simp add: trim_def js_whitespace_def)
  from blank handleSend_blank_noop [OF blank, of "\<lambda>m. None"] show ?thesis by simp
qed

subsection \<open>Responses with an error status\<close>

text \<open>
  Claim C8. On a 401 response, to the room request and to the history request alike,
  the token is removed from \<open>localStorage\<close>, the router is sent to the login page, and
  neither \<open>roomInfo\<close> nor \<open>messages\<close> is written.
\<close>

theorem unauthorized_discards_token:
  assumes "status res = 401" and "status res' = 401"
  shows "localStorage (fetchRoomInfo req (Resolved res) s) ''token'' = None \<and>
         pushed (fetchRoomInfo req (Resolved res) s) = pushed s @ [''/auth/login''] \<and>
         roomInfo (fetchRoomInfo req (Resolved res) s) = roomInfo s \<and>
         messages (fetchRoomInfo req (Resolved res) s) = messages s \<and>
         localStorage (fetchMessages req' (Resolved res') s) ''token'' = None \<and>
         pushed (fetchMessages req' (Resolved res') s) = pushed s @ [''/auth/login''] \<and>
         roomInfo (fetchMessages req' (Resolved res') s) = roomInfo s \<and>
         messages (fetchMessages req' (Resolved res') s) = messages s"
  using assms by (simp add: fetchRoomInfo_def fetchMessages_def)

theorem unauthorized_discards_token_witness:
  "localStorage (fetchRoomInfo (fetchRoomInfo_request default_apiUrl sample_room) (Resolved \<lparr>status = 401, json = JsonThrows NotAnError\<rparr>) sample_room) ''token'' = None \<and>
   pushed (fetchRoomInfo (fetchRoomInfo_request default_apiUrl sample_room) (Resolved \<lparr>status = 401, json = JsonThrows NotAnError\<rparr>) sample_room) = pushed sample_room @ [''/auth/login''] \<and>
   roomInfo (fetchRoomInfo (fetchRoomInfo_request default_apiUrl sample_room) (Resolved \<lparr>status = 401, json = JsonThrows NotAnError\<rparr>) sample_room) = roomInfo sample_room \<and>
   messages (fetchRoomInfo (fetchRoomInfo_request default_apiUrl sample_room) (Resolved \<lparr>status = 401, json = JsonThrows NotAnError\<rparr>) sample_room) = messages sample_room \<and>
   localStorage (fetchMessages (fetchMessages_request default_apiUrl sample_room) (Resolved \<lparr>status = 401, json = JsonThrows NotAnError\<rparr>) sample_room) ''token'' = None \<and>
   pushed (fetchMessages (fetchMessages_request default_apiUrl sample_room) (Resolved \<lparr>status = 401, json = JsonThrows NotAnError\<rparr>) sample_room) = pushed sample_room @ [''/auth/login''] \<and>
   roomInfo (fetchMessages (fetchMessages_request default_apiUrl sample_room) (Resolved \<lparr>status = 401, json = JsonThrows NotAnError\<rparr>) sample_room) = roomInfo sample_room \<and>
   messages (fetchMessages (fetchMessages_request default_apiUrl sample_room) (Resolved \<lparr>status = 401, json = JsonThrows NotAnError\<rparr>) sample_room) = messages sample_room"
  by (rule unauthorized_discards_token) simp_all

subsection \<open>A room that is not found, or not open to the caller\<close>

















text \<open>What the component returns in the first case of that instance.\<close>

lemma room_fetch_blocked_value:
  "render [] (loadRoomData RoomInfoFirst (fetchRoomInfo_request default_apiUrl sample_mounted)
        (Resolved room_not_found) (fetchMessages_request default_apiUrl sample_mounted)
        history_loaded sample_mounted) =
     ErrorPage ''Failed to load chat room'' ''Room not found'' True"
  by (simp add: loadRoomData_def fetchRoomInfo_def fetchMessages_def render_def truthy_def ok_def
      room_not_found_def history_loaded_def sample_mounted_def ChatRoom_init_def)

text \<open>
  Why the fetches are taken to throw errors with a message: an \<open>Error\<close> whose message
  is empty, handled after the 404, would be stored in \<open>error\<close> and read as no error.
\<close>

lemma empty_message_clears_error:
  "render [] (loadRoomData RoomInfoFirst (fetchRoomInfo_request default_apiUrl sample_mounted)
        (Resolved room_not_found) (fetchMessages_request default_apiUrl sample_mounted)
        (Rejected (ErrorObj [])) sample_mounted) =
     ChatView [] NoMessagesYet"
  by (simp add: loadRoomData_def fetchRoomInfo_def fetchMessages_def render_def truthy_def
      error_message_def merged_view_def room_not_found_def sample_mounted_def ChatRoom_init_def
      useToast_init_def)

end
